theory Spec2Isabelle
  imports Complex_Main
begin

section \<open>Receipt issuance page (\<open>src/pages/invoicing/RecibosPage.tsx\<close>)\<close>

text \<open>
  The page keeps four pieces of React state and a form, and its submit handler drives
  four collaborators imported from modules outside the page: the PDF generator, the
  storage of the PDF, the insertion of the income row and the query for the next
  receipt number. The handlers are modelled as functions from the state before the
  handler to the state after it, together with the list of the events the handler
  produced, in program order. The collaborators are fields of an environment that says
  what each call returns or throws.
\<close>

subsection \<open>Data\<close>

text \<open>
  The identifier of a client comes from the database; the page only tests it for
  truthiness (\<open>!clientData.id\<close>) and copies it.
\<close>

datatype js_id = IdUndefined | IdNull | IdNum int | IdStr string

fun truthy :: "js_id \<Rightarrow> bool" where
  "truthy IdUndefined = False"
| "truthy IdNull = False"
| "truthy (IdNum n) = (n \<noteq> 0)"
| "truthy (IdStr s) = (s \<noteq> [])"

record Client =
  id_c :: js_id
  razon_social :: string
  numero_documento :: string

text \<open>
  A JavaScript number. \<open>Num n\<close> is the integer \<open>n\<close>; \<open>NumberOf s\<close> is the value of
  \<open>Number(s)\<close> for a string \<open>s\<close> whose conversion is not evaluated here.
\<close>

datatype js_number = Num int | NumberOf string

record ReciboPagoFormValues =
  dni :: string
  client_name :: string
  client_id :: js_id
  fecha_emision :: string
  monto :: rat
  concepto :: string
  metodo_pago :: string
  numero_operacion :: string

type_synonym blob = string

text \<open>
  The object handed to the PDF generator (lines 125-130): the form values spread, plus
  the receipt number and the client's name and document number.
\<close>

record receiptData =
  rd_values :: ReciboPagoFormValues
  rd_correlative :: string
  client_full_name :: string
  client_dni :: string

text \<open>The row inserted into \<open>ingresos\<close> (lines 140-149); \<open>None\<close> is \<open>null\<close>.\<close>

record incomeData =
  receipt_number :: string
  income_dni :: string
  full_name :: string
  amount :: rat
  account :: string
  date :: string
  transaction_type :: string
  numeroOperacion :: "js_number option"

record page =
  isSearching :: bool
  isSubmitting :: bool
  correlative :: string
  clientData :: "Client option"
  form :: ReciboPagoFormValues

subsection \<open>Collaborators and events\<close>

text \<open>
  An awaited call either returns a value or throws. Of a thrown value the handlers read
  only \<open>.message\<close>, so \<open>Throws m\<close> carries that message (empty when there is none).
\<close>

datatype 'a outcome = Returns 'a | Throws string

record env =
  today :: string
  fetchNextReceiptCorrelative :: "string outcome"
  importReceiptPdfGenerator :: "unit outcome"
  generateReceiptPdf :: "receiptData \<Rightarrow> blob outcome"
  saveReceiptPdfToSupabase :: "blob \<Rightarrow> string \<Rightarrow> js_id \<Rightarrow> unit outcome"
  createIncomeFromBoleta :: "incomeData \<Rightarrow> unit outcome"

datatype call =
    FetchNextReceiptCorrelative
  | ImportReceiptPdfGenerator
  | GenerateReceiptPdf receiptData
  | SaveReceiptPdfToSupabase blob string js_id
  | CreateIncomeFromBoleta incomeData

datatype status = Returned | Threw string

text \<open>
  The toasts of the page, by title. The success toast names the receipt number and
  offers the PDF for download; the failure toast shows a description.
\<close>

datatype toast =
    DatosIncompletos
  | ErrorDeCorrelativo
  | ReciboGeneradoYRegistrado string blob
  | ErrorAlGenerarRecibo string

datatype event = Called call status | Toasted toast | ConsoleError string

fun status_of :: "'a outcome \<Rightarrow> status" where
  "status_of (Returns v) = Returned"
| "status_of (Throws m) = Threw m"

subsection \<open>The handlers\<close>

definition defaultValues :: "string \<Rightarrow> ReciboPagoFormValues" where
  "defaultValues d =
     \<lparr>dni = [], client_name = [], client_id = IdNull, fecha_emision = d, monto = 250,
      concepto = ''Elaboracion de Expediente Tecnico'', metodo_pago = ''Efectivo'',
      numero_operacion = []\<rparr>"

definition initial_page :: "string \<Rightarrow> page" where
  "initial_page d =
     \<lparr>isSearching = False, isSubmitting = False, correlative = [], clientData = None,
      form = defaultValues d\<rparr>"

text \<open>
  \<open>loadCorrelative\<close> (lines 47-61) stores the fetched number and returns it; when the
  fetch throws it logs, toasts and returns the empty string, and the stored number is
  left as it was.
\<close>

definition loadCorrelative :: "env \<Rightarrow> page \<Rightarrow> page \<times> string \<times> event list" where
  "loadCorrelative e st =
     (case fetchNextReceiptCorrelative e of
        Returns nextCorrelative \<Rightarrow>
          (st\<lparr>correlative := nextCorrelative\<rparr>, nextCorrelative,
           [Called FetchNextReceiptCorrelative Returned])
      | Throws m \<Rightarrow>
          (st, [],
           [Called FetchNextReceiptCorrelative (Threw m), ConsoleError m,
            Toasted ErrorDeCorrelativo]))"

text \<open>The effect run once when the page mounts (lines 63-65).\<close>

definition mount :: "env \<Rightarrow> page \<times> event list" where
  "mount e = (case loadCorrelative e (initial_page (today e)) of (st, _, tr) \<Rightarrow> (st, tr))"

text \<open>
  \<open>Number(s)\<close> on a string: the empty string converts to 0, and a string of decimal
  digits to the integer it denotes, exactly as long as that integer is at most \<open>2 ^ 53\<close>.
  Every other conversion (signs, fractions, exponents, white space, text that is not a
  number) is kept as \<open>NumberOf s\<close>.
\<close>

definition digit_val :: "char \<Rightarrow> nat" where
  "digit_val c = of_char c - 48"

definition is_digit :: "char \<Rightarrow> bool" where
  "is_digit c = (48 \<le> (of_char c :: nat) \<and> (of_char c :: nat) \<le> 57)"

fun decimal_value :: "nat \<Rightarrow> string \<Rightarrow> nat" where
  "decimal_value acc [] = acc"
| "decimal_value acc (c # cs) = decimal_value (10 * acc + digit_val c) cs"

definition js_Number :: "string \<Rightarrow> js_number" where
  "js_Number s =
     (if s = [] then Num 0
      else if list_all is_digit s \<and> decimal_value 0 s \<le> 2 ^ 53
        then Num (int (decimal_value 0 s))
      else NumberOf s)"

definition unexpected_error_message :: string where
  "unexpected_error_message = ''Ocurri'' @ [CHR 0xF3] @ '' un error inesperado.''"

text \<open>
  The \<open>catch\<close> and \<open>finally\<close> blocks of \<open>onSubmit\<close> (lines 193-202), entered with the
  events of the \<open>try\<close> block so far and the message of what was thrown.
\<close>

definition submit_failed :: "page \<Rightarrow> event list \<Rightarrow> string \<Rightarrow> page \<times> event list" where
  "submit_failed st tr m =
     (st\<lparr>isSubmitting := False\<rparr>,
      tr @ [ConsoleError m,
            Toasted (ErrorAlGenerarRecibo (if m = [] then unexpected_error_message else m))])"

definition make_receiptData :: "ReciboPagoFormValues \<Rightarrow> string \<Rightarrow> Client \<Rightarrow> receiptData" where
  "make_receiptData values c client =
     \<lparr>rd_values = values, rd_correlative = c, client_full_name = razon_social client,
      client_dni = numero_documento client\<rparr>"

definition make_incomeData :: "ReciboPagoFormValues \<Rightarrow> string \<Rightarrow> Client \<Rightarrow> incomeData" where
  "make_incomeData values c client =
     \<lparr>receipt_number = c, income_dni = dni values, full_name = razon_social client,
      amount = monto values, account = metodo_pago values, date = fecha_emision values,
      transaction_type = ''Recibo de Pago'',
      numeroOperacion =
        (if metodo_pago values = ''BBVA Empresa''
         then Some (js_Number (numero_operacion values)) else None)\<rparr>"

text \<open>
  \<open>onSubmit\<close> (lines 111-203). The receipt number and the client are the ones in the
  state when the handler starts. The last call of the success path, \<open>loadCorrelative()\<close>,
  is not awaited in the source; its effect on the state is the same, and it is placed at
  the end of the events.
\<close>

definition onSubmit :: "env \<Rightarrow> page \<Rightarrow> ReciboPagoFormValues \<Rightarrow> page \<times> event list" where
  "onSubmit e st values =
     (case clientData st of
        None \<Rightarrow> (st, [Toasted DatosIncompletos])
      | Some client \<Rightarrow>
         (if \<not> truthy (id_c client) \<or> correlative st = []
          then (st, [Toasted DatosIncompletos])
          else
           (let st1 = st\<lparr>isSubmitting := True\<rparr>;
                c = correlative st;
                rd = make_receiptData values c client;
                ev1 = Called ImportReceiptPdfGenerator (status_of (importReceiptPdfGenerator e))
            in
            (case importReceiptPdfGenerator e of
               Throws m \<Rightarrow> submit_failed st1 [ev1] m
             | Returns _ \<Rightarrow>
              (let ev2 = Called (GenerateReceiptPdf rd) (status_of (generateReceiptPdf e rd))
               in
               (case generateReceiptPdf e rd of
                  Throws m \<Rightarrow> submit_failed st1 [ev1, ev2] m
                | Returns pdfBlob \<Rightarrow>
                 (let saved = saveReceiptPdfToSupabase e pdfBlob c (id_c client);
                      ev3 = Called (SaveReceiptPdfToSupabase pdfBlob c (id_c client))
                              (status_of saved)
                  in
                  (case saved of
                     Throws m \<Rightarrow> submit_failed st1 [ev1, ev2, ev3] m
                   | Returns _ \<Rightarrow>
                    (let inc = make_incomeData values c client;
                         ev4 = Called (CreateIncomeFromBoleta inc)
                                 (status_of (createIncomeFromBoleta e inc))
                     in
                     (case createIncomeFromBoleta e inc of
                        Throws m \<Rightarrow> submit_failed st1 [ev1, ev2, ev3, ev4] m
                      | Returns _ \<Rightarrow>
                         (case loadCorrelative e
                                 (st1\<lparr>form := defaultValues (today e), clientData := None\<rparr>) of
                            (st2, _, tr) \<Rightarrow>
                              (st2\<lparr>isSubmitting := False\<rparr>,
                               ([ev1, ev2, ev3, ev4,
                                 Toasted (ReciboGeneradoYRegistrado c pdfBlob)] @ tr)))))))))))))"

text \<open>The \<open>disabled\<close> attribute of the submit button (line 351).\<close>

definition submit_disabled :: "page \<Rightarrow> bool" where
  "submit_disabled st = (isSubmitting st \<or> clientData st = None \<or> correlative st = [])"

subsection \<open>Reading the events of a run\<close>

text \<open>The calls to collaborators among the events of a handler, and the toasts shown.\<close>

fun calls :: "event list \<Rightarrow> call list" where
  "calls [] = []"
| "calls (Called c s # es) = c # calls es"
| "calls (_ # es) = calls es"


text \<open>The receipt number a call carries, if it carries one.\<close>

fun call_correlative :: "call \<Rightarrow> string list" where
  "call_correlative (GenerateReceiptPdf rd) = [rd_correlative rd]"
| "call_correlative (SaveReceiptPdfToSupabase b c i) = [c]"
| "call_correlative (CreateIncomeFromBoleta d) = [receipt_number d]"
| "call_correlative _ = []"

definition used_correlatives :: "event list \<Rightarrow> string list" where
  "used_correlatives tr = concat (map call_correlative (calls tr))"

text \<open>
  Whether every call of the PDF generator in a list of events comes right after a call
  of the receipt-number query that returned; \<open>prev\<close> is the event before the list.
\<close>

fun is_render :: "event \<Rightarrow> bool" where
  "is_render (Called (GenerateReceiptPdf rd) s) = True"
| "is_render _ = False"

fun fetched_before_render :: "event option \<Rightarrow> event list \<Rightarrow> bool" where
  "fetched_before_render prev [] = True"
| "fetched_before_render prev (ev # es) =
     ((is_render ev \<longrightarrow> prev = Some (Called FetchNextReceiptCorrelative Returned))
      \<and> fetched_before_render (Some ev) es)"

section \<open>Form validation\<close>

text \<open>
  Modelled from the spec: the schema \<open>ReciboPagoFormSchema\<close> lives in
  \<open>@/lib/types/invoicing\<close>, which is not among the sources; the page only hands it to
  the form as its resolver (line 31). The spec (sections 3 and 4.3, step 1) gives its
  rules: the amount is positive, the concept is not empty, and the operation reference
  is non-empty exactly when the payment method is the bank account that requires it
  (\<open>BBVA Empresa\<close> on the page).
\<close>

definition ReciboPagoFormSchema :: "ReciboPagoFormValues \<Rightarrow> bool" where
  "ReciboPagoFormSchema v =
     (0 < monto v \<and> concepto v \<noteq> []
      \<and> ((numero_operacion v \<noteq> []) = (metodo_pago v = ''BBVA Empresa'')))"

text \<open>
  \<open>form.handleSubmit(onSubmit)\<close> (line 224): the form library runs the resolver on the
  current values and calls \<open>onSubmit\<close> with them only when the resolver accepts them;
  otherwise no handler of the page runs.
\<close>

definition handleSubmit :: "env \<Rightarrow> page \<Rightarrow> page \<times> event list" where
  "handleSubmit e st =
     (if ReciboPagoFormSchema (form st) then onSubmit e st (form st) else (st, []))"

section \<open>Correlative Sequencer\<close>

text \<open>
  The sequencer behind \<open>fetchNextReceiptCorrelative\<close> is not among the sources; the page
  only calls it (line 49). Its definitions below follow the spec (sections 3, 4.1, 6
  and 8). The counter is a single durable integer, here a natural number.
\<close>

definition digit_char :: "nat \<Rightarrow> char" where
  "digit_char d = ''0123456789'' ! d"

fun decimal :: "nat \<Rightarrow> string" where
  "decimal n = (if n < 10 then [digit_char n] else decimal (n div 10) @ [digit_char (n mod 10)])"

declare decimal.simps [simp del]

text \<open>
  Modelled from the spec: a correlative is the counter value as a fixed-width string with
  a stable prefix, \<open>R-00123\<close>: the prefix \<open>R-\<close> and the decimal digits, padded with
  zeros to five digits (a number of more than five digits keeps all its digits).
\<close>

definition correlative_string :: "nat \<Rightarrow> string" where
  "correlative_string n = ''R-'' @ replicate (5 - length (decimal n)) CHR ''0'' @ decimal n"

datatype sequencer_error = SequencerUnavailable

text \<open>
  Modelled from the spec: \<open>peek\<close> returns the value that would be allocated next; the
  second component is the counter it leaves.
\<close>

definition peek :: "nat \<Rightarrow> string \<times> nat" where
  "peek counter = (correlative_string (counter + 1), counter)"

text \<open>
  Modelled from the spec: \<open>allocate\<close> atomically reads the counter, increments it, stores
  it and returns the new value (with the counter at 10 the next two are \<open>R-00011\<close> and
  \<open>R-00012\<close>); when the store cannot be reached it fails with \<open>SequencerUnavailable\<close>
  and nothing is issued.
\<close>

definition allocate :: "bool \<Rightarrow> nat \<Rightarrow> (sequencer_error + string) \<times> nat" where
  "allocate reachable counter =
     (if reachable then (Inr (correlative_string (counter + 1)), counter + 1)
      else (Inl SequencerUnavailable, counter))"

text \<open>\<open>peek\<close> called \<open>n\<close> times in a row: the values reported and the counter left.\<close>

fun peeks :: "nat \<Rightarrow> nat \<Rightarrow> string list \<times> nat" where
  "peeks 0 counter = ([], counter)"
| "peeks (Suc n) counter =
     (case peek counter of (v, counter') \<Rightarrow>
        (case peeks n counter' of (vs, counter'') \<Rightarrow> (v # vs, counter'')))"

text \<open>
  Modelled from the spec: concurrent callers of \<open>allocate\<close>. The spec implements
  \<open>allocate\<close> by a single atomic compare-and-swap on the stored counter and fails with
  \<open>SequencerUnavailable\<close> when the store cannot be reached or the update cannot be
  committed after bounded retries. A caller is \<open>Idle k\<close> with \<open>k\<close> retries left before
  it has read the counter, \<open>Holding v k\<close> after reading the value \<open>v\<close>, and
  \<open>Finished r\<close> with its result. One step of a caller is one access to the store: a
  read, or a compare-and-swap that commits \<open>v + 1\<close> when the counter is still \<open>v\<close> and
  otherwise gives up or starts again.
\<close>

datatype caller = Idle nat | Holding nat nat | Finished "sequencer_error + string"

fun caller_step :: "bool \<Rightarrow> nat \<Rightarrow> caller \<Rightarrow> nat \<times> caller" where
  "caller_step reachable counter (Finished r) = (counter, Finished r)"
| "caller_step False counter (Idle k) = (counter, Finished (Inl SequencerUnavailable))"
| "caller_step False counter (Holding v k) = (counter, Finished (Inl SequencerUnavailable))"
| "caller_step True counter (Idle k) = (counter, Holding counter k)"
| "caller_step True counter (Holding v k) =
     (if counter = v then (v + 1, Finished (Inr (correlative_string (v + 1))))
      else if k = 0 then (counter, Finished (Inl SequencerUnavailable))
      else (counter, Idle (k - 1)))"

text \<open>
  Modelled from the spec: the callers race, and their accesses to the store are
  serialised in some order. A schedule lists, access by access, which caller goes next
  and whether the store is reachable for that access; every schedule is possible.
\<close>

fun sequencer_step :: "nat \<times> caller list \<Rightarrow> nat \<times> bool \<Rightarrow> nat \<times> caller list" where
  "sequencer_step (counter, cs) (i, reachable) =
     (if i < length cs
      then (case caller_step reachable counter (cs ! i) of
              (counter', c) \<Rightarrow> (counter', cs[i := c]))
      else (counter, cs))"

definition run_schedule :: "(nat \<times> bool) list \<Rightarrow> nat \<times> caller list \<Rightarrow> nat \<times> caller list" where
  "run_schedule sched s = foldl sequencer_step s sched"

text \<open>
  The invariant of the race, for a counter that started at \<open>c0\<close>: the counter has not
  decreased; every correlative received is the string of a number above \<open>c0\<close> and up to
  the counter, and no other caller holds the same one; every number above \<open>c0\<close> and up
  to the counter was received by some caller.
\<close>

definition issued_ok :: "nat \<Rightarrow> nat \<times> caller list \<Rightarrow> bool" where
  "issued_ok c0 s =
     (c0 \<le> fst s
      \<and> (\<forall>i < length (snd s). \<forall>a. snd s ! i = Finished (Inr a) \<longrightarrow>
            (\<exists>n. c0 < n \<and> n \<le> fst s \<and> a = correlative_string n)
            \<and> (\<forall>j < length (snd s). j \<noteq> i \<longrightarrow> snd s ! j \<noteq> Finished (Inr a)))
      \<and> (\<forall>n. c0 < n \<and> n \<le> fst s \<longrightarrow>
            (\<exists>i < length (snd s). snd s ! i = Finished (Inr (correlative_string n)))))"

section \<open>Sample inputs\<close>

definition client_1 :: Client where
  "client_1 = \<lparr>id_c = IdNum 7, razon_social = ''Ana Quispe'', numero_documento = ''12345678''\<rparr>"

definition values_1 :: ReciboPagoFormValues where
  "values_1 = (defaultValues ''2025-03-01'')\<lparr>dni := ''12345678'', client_name := ''Ana Quispe'',
     client_id := IdNum 7\<rparr>"

definition values_bbva :: ReciboPagoFormValues where
  "values_bbva = values_1\<lparr>metodo_pago := ''BBVA Empresa''\<rparr>"

definition page_42 :: page where
  "page_42 = \<lparr>isSearching = False, isSubmitting = False, correlative = ''R-00042'',
     clientData = Some client_1, form = values_1\<rparr>"

definition rd_42 :: receiptData where
  "rd_42 = make_receiptData values_1 ''R-00042'' client_1"

definition income_42 :: incomeData where
  "income_42 = make_incomeData values_1 ''R-00042'' client_1"

definition env_ok :: env where
  "env_ok = \<lparr>today = ''2025-03-01'', fetchNextReceiptCorrelative = Returns ''R-00043'',
     importReceiptPdfGenerator = Returns (), generateReceiptPdf = (\<lambda>rd. Returns ''%PDF''),
     saveReceiptPdfToSupabase = (\<lambda>b c i. Returns ()),
     createIncomeFromBoleta = (\<lambda>d. Returns ())\<rparr>"

definition env_render_fails :: env where
  "env_render_fails = env_ok\<lparr>generateReceiptPdf := (\<lambda>rd. Throws ''timeout'')\<rparr>"

definition env_store_fails :: env where
  "env_store_fails = env_ok\<lparr>saveReceiptPdfToSupabase := (\<lambda>b c i. Throws ''timeout'')\<rparr>"

definition env_ledger_fails :: env where
  "env_ledger_fails = env_ok\<lparr>createIncomeFromBoleta := (\<lambda>d. Throws ''timeout'')\<rparr>"


definition env_load_42 :: env where
  "env_load_42 = env_ok\<lparr>fetchNextReceiptCorrelative := Returns ''R-00042''\<rparr>"

definition page_bbva :: page where
  "page_bbva = page_42\<lparr>form := values_bbva\<rparr>"

section \<open>Auxiliary facts\<close>

lemmas run_defs = onSubmit_def submit_failed_def loadCorrelative_def make_receiptData_def
  make_incomeData_def defaultValues_def Let_def

lemmas sample_defs = page_42_def client_1_def values_1_def rd_42_def income_42_def env_ok_def

lemma status_of_Threw: "status_of x = Threw m \<longleftrightarrow> x = Throws m"
  by (cases x) auto

text \<open>The sample runs, evaluated.\<close>

lemma run_ok:
  "onSubmit env_ok page_42 values_1 =
     (page_42\<lparr>correlative := ''R-00043'', clientData := None, form := defaultValues ''2025-03-01''\<rparr>,
      [Called ImportReceiptPdfGenerator Returned, Called (GenerateReceiptPdf rd_42) Returned,
       Called (SaveReceiptPdfToSupabase ''%PDF'' ''R-00042'' (IdNum 7)) Returned,
       Called (CreateIncomeFromBoleta income_42) Returned,
       Toasted (ReciboGeneradoYRegistrado ''R-00042'' ''%PDF''),
       Called FetchNextReceiptCorrelative Returned])"
  by (simp add: run_defs sample_defs)

lemma run_render_fails:
  "onSubmit env_render_fails page_42 values_1 =
     (page_42,
      [Called ImportReceiptPdfGenerator Returned,
       Called (GenerateReceiptPdf rd_42) (Threw ''timeout''),
       ConsoleError ''timeout'', Toasted (ErrorAlGenerarRecibo ''timeout'')])"
  by (simp add: run_defs sample_defs env_render_fails_def)

lemma run_store_fails:
  "onSubmit env_store_fails page_42 values_1 =
     (page_42,
      [Called ImportReceiptPdfGenerator Returned, Called (GenerateReceiptPdf rd_42) Returned,
       Called (SaveReceiptPdfToSupabase ''%PDF'' ''R-00042'' (IdNum 7)) (Threw ''timeout''),
       ConsoleError ''timeout'', Toasted (ErrorAlGenerarRecibo ''timeout'')])"
  by (simp add: run_defs sample_defs env_store_fails_def)

lemma run_ledger_fails:
  "onSubmit env_ledger_fails page_42 values_1 =
     (page_42,
      [Called ImportReceiptPdfGenerator Returned, Called (GenerateReceiptPdf rd_42) Returned,
       Called (SaveReceiptPdfToSupabase ''%PDF'' ''R-00042'' (IdNum 7)) Returned,
       Called (CreateIncomeFromBoleta income_42) (Threw ''timeout''),
       ConsoleError ''timeout'', Toasted (ErrorAlGenerarRecibo ''timeout'')])"
  by (simp add: run_defs sample_defs env_ledger_fails_def)



lemma mount_42: "fst (mount env_load_42) = initial_page ''2025-03-01''\<lparr>correlative := ''R-00042''\<rparr>"
  by (simp add: mount_def loadCorrelative_def sample_defs env_load_42_def)

lemma used_42:
  "rd_correlative rd_42 = ''R-00042''"
  "receipt_number income_42 = ''R-00042''"
  by (simp_all add: rd_42_def income_42_def make_receiptData_def make_incomeData_def)

text \<open>Every receipt number a run hands to a collaborator is the cached one.\<close>

lemma used_correlatives_cached:
  "k \<in> set (used_correlatives (snd (onSubmit e st values))) \<Longrightarrow> k = correlative st"
  by (auto simp: run_defs used_correlatives_def split: option.splits if_splits outcome.splits)

text \<open>A correlative string determines its number.\<close>

lemma digit_val_digit_char: "d < 10 \<Longrightarrow> digit_val (digit_char d) = d"
proof -
  assume "d < 10"
  then have "d = 0 \<or> d = 1 \<or> d = 2 \<or> d = 3 \<or> d = 4 \<or> d = 5 \<or> d = 6 \<or> d = 7 \<or> d = 8 \<or> d = 9"
    by arith
  then show ?thesis
    by (auto simp: digit_val_def digit_char_def)
qed

lemma decimal_value_append:
  "decimal_value acc (xs @ ys) = decimal_value (decimal_value acc xs) ys"
  by (induction xs arbitrary: acc) simp_all

lemma decimal_value_decimal: "decimal_value 0 (decimal n) = n"
proof (induction n rule: decimal.induct)
  case (1 n)
  show ?case
  proof (cases "n < 10")
    case True
    then show ?thesis
      by (subst decimal.simps) (simp add: digit_val_digit_char)
  next
    case False
    then have "decimal_value 0 (decimal (n div 10)) = n div 10"
      using 1 by simp
    with False show ?thesis
      by (subst decimal.simps) (simp add: decimal_value_append digit_val_digit_char)
  qed
qed

lemma decimal_value_zeros: "decimal_value 0 (replicate k CHR ''0'' @ s) = decimal_value 0 s"
  by (induction k) (simp_all add: digit_val_def)

lemma correlative_string_value: "decimal_value 0 (drop 2 (correlative_string n)) = n"
  by (simp add: correlative_string_def decimal_value_zeros decimal_value_decimal)

lemma correlative_string_inj: "correlative_string m = correlative_string n \<Longrightarrow> m = n"
  by (metis correlative_string_value)

lemma correlative_string_samples:
  "correlative_string 11 = ''R-00011''" "correlative_string 12 = ''R-00012''"
  "correlative_string 42 = ''R-00042''" "correlative_string 43 = ''R-00043''"
  by code_simp+

lemma peeks_eq: "peeks n counter = (replicate n (correlative_string (counter + 1)), counter)"
  by (induction n) (simp_all add: peek_def)

text \<open>Every access to the store keeps the invariant of the race.\<close>

lemma caller_step_cases:
  "caller_step reachable counter c = (counter', c') \<Longrightarrow>
     (counter' = counter \<and> (c' = c \<or> ((\<forall>a. c' \<noteq> Finished (Inr a)) \<and> (\<forall>a. c \<noteq> Finished a))))
     \<or> (counter' = counter + 1 \<and> c' = Finished (Inr (correlative_string (counter + 1)))
         \<and> (\<forall>a. c \<noteq> Finished a))"
  by (cases "(reachable, counter, c)" rule: caller_step.cases) (auto split: if_splits)

lemma issued_okI:
  assumes "c0 \<le> counter"
    and "\<And>p b. p < length cs \<Longrightarrow> cs ! p = Finished (Inr b) \<Longrightarrow>
           \<exists>n. c0 < n \<and> n \<le> counter \<and> b = correlative_string n"
    and "\<And>p j b. p < length cs \<Longrightarrow> j < length cs \<Longrightarrow> j \<noteq> p \<Longrightarrow>
           cs ! p = Finished (Inr b) \<Longrightarrow> cs ! j \<noteq> Finished (Inr b)"
    and "\<And>n. c0 < n \<Longrightarrow> n \<le> counter \<Longrightarrow>
           \<exists>p < length cs. cs ! p = Finished (Inr (correlative_string n))"
  shows "issued_ok c0 (counter, cs)"
  unfolding issued_ok_def fst_conv snd_conv
  using assms by blast

lemma issued_okD:
  assumes "issued_ok c0 (counter, cs)"
  shows "c0 \<le> counter"
    and "\<And>p b. p < length cs \<Longrightarrow> cs ! p = Finished (Inr b) \<Longrightarrow>
           \<exists>n. c0 < n \<and> n \<le> counter \<and> b = correlative_string n"
    and "\<And>p j b. p < length cs \<Longrightarrow> j < length cs \<Longrightarrow> j \<noteq> p \<Longrightarrow>
           cs ! p = Finished (Inr b) \<Longrightarrow> cs ! j \<noteq> Finished (Inr b)"
    and "\<And>n. c0 < n \<Longrightarrow> n \<le> counter \<Longrightarrow>
           \<exists>p < length cs. cs ! p = Finished (Inr (correlative_string n))"
  using assms unfolding issued_ok_def fst_conv snd_conv
  by blast+

lemma issued_ok_step:
  assumes "issued_ok c0 s"
  shows "issued_ok c0 (sequencer_step s a)"
proof -
  obtain counter cs where s: "s = (counter, cs)" by (cases s)
  obtain i reachable where a: "a = (i, reachable)" by (cases a)
  note old = issued_okD [OF assms [unfolded s]]
  show ?thesis
  proof (cases "i < length cs")
    case False
    with assms s a show ?thesis by simp
  next
    case True
    obtain counter' c' where st: "caller_step reachable counter (cs ! i) = (counter', c')"
      by (cases "caller_step reachable counter (cs ! i)")
    from True st s a have res: "sequencer_step s a = (counter', cs[i := c'])"
      by simp
    from caller_step_cases [OF st] show ?thesis
    proof
      assume same: "counter' = counter
          \<and> (c' = cs ! i \<or> ((\<forall>a. c' \<noteq> Finished (Inr a)) \<and> (\<forall>a. cs ! i \<noteq> Finished a)))"
      show ?thesis
      proof (cases "c' = cs ! i")
        case True
        with same assms s show ?thesis
          unfolding res by simp
      next
        case False
        with same have c': "\<And>a. c' \<noteq> Finished (Inr a)" and ci: "\<And>a. cs ! i \<noteq> Finished a"
          by auto
        have "issued_ok c0 (counter, cs[i := c'])"
        proof (rule issued_okI)
          show "c0 \<le> counter" by (rule old(1))
        next
          fix p b
          assume p: "p < length (cs[i := c'])" "cs[i := c'] ! p = Finished (Inr b)"
          with c' have "p \<noteq> i" by auto
          with p have "p < length cs" "cs ! p = Finished (Inr b)" by simp_all
          then show "\<exists>n. c0 < n \<and> n \<le> counter \<and> b = correlative_string n"
            by (rule old(2))
        next
          fix p j b
          assume p: "p < length (cs[i := c'])" "j < length (cs[i := c'])" "j \<noteq> p"
            "cs[i := c'] ! p = Finished (Inr b)"
          with c' have pi: "p \<noteq> i" by auto
          with p have p': "p < length cs" "cs ! p = Finished (Inr b)" by simp_all
          show "cs[i := c'] ! j \<noteq> Finished (Inr b)"
          proof (cases "j = i")
            case True
            with p(2) c' show ?thesis by simp
          next
            case False
            with p(2,3) old(3) [OF p'(1) _ _ p'(2), of j] show ?thesis by simp
          qed
        next
          fix n
          assume "c0 < n" "n \<le> counter"
          from old(4) [OF this] obtain p where p: "p < length cs"
              "cs ! p = Finished (Inr (correlative_string n))"
            by blast
          with ci have "p \<noteq> i" by auto
          with p show "\<exists>p < length (cs[i := c']). cs[i := c'] ! p = Finished (Inr (correlative_string n))"
            by auto
        qed
        with same show ?thesis
          unfolding res by simp
      qed
    next
      assume new: "counter' = counter + 1
          \<and> c' = Finished (Inr (correlative_string (counter + 1)))
          \<and> (\<forall>a. cs ! i \<noteq> Finished a)"
      then have ci: "\<And>a. cs ! i \<noteq> Finished a"
        and c': "c' = Finished (Inr (correlative_string (counter + 1)))"
        by auto
      have fresh: "cs ! j \<noteq> Finished (Inr (correlative_string (counter + 1)))"
        if "j < length cs" for j
      proof
        assume "cs ! j = Finished (Inr (correlative_string (counter + 1)))"
        from old(2) [OF that this] obtain n where "n \<le> counter"
            "correlative_string (counter + 1) = correlative_string n"
          by blast
        then show False
          using correlative_string_inj by fastforce
      qed
      have "issued_ok c0 (counter + 1, cs[i := c'])"
      proof (rule issued_okI)
        from old(1) show "c0 \<le> counter + 1" by simp
      next
        fix p b
        assume p: "p < length (cs[i := c'])" "cs[i := c'] ! p = Finished (Inr b)"
        show "\<exists>n. c0 < n \<and> n \<le> counter + 1 \<and> b = correlative_string n"
        proof (cases "p = i")
          case True
          with p c' have "b = correlative_string (counter + 1)" by simp
          with old(1) show ?thesis
            by (intro exI [of _ "counter + 1"]) simp
        next
          case False
          with p have "p < length cs" "cs ! p = Finished (Inr b)" by simp_all
          from old(2) [OF this] obtain n where "c0 < n" "n \<le> counter" "b = correlative_string n"
            by blast
          then show ?thesis
            by (intro exI [of _ n]) simp
        qed
      next
        fix p j b
        assume p: "p < length (cs[i := c'])" "j < length (cs[i := c'])" "j \<noteq> p"
          "cs[i := c'] ! p = Finished (Inr b)"
        show "cs[i := c'] ! j \<noteq> Finished (Inr b)"
        proof (cases "p = i")
          case True
          with p c' have b: "b = correlative_string (counter + 1)" by simp
          from True p(3) have "cs[i := c'] ! j = cs ! j" by simp
          with fresh [of j] p(2) b show ?thesis by simp
        next
          case False
          with p have p': "p < length cs" "cs ! p = Finished (Inr b)" by simp_all
          show ?thesis
          proof (cases "j = i")
            case True
            from fresh [OF p'(1)] p'(2) have "b \<noteq> correlative_string (counter + 1)"
              by auto
            with True p(2) c' show ?thesis by simp
          next
            case False
            with p(2,3) old(3) [OF p'(1) _ _ p'(2), of j] show ?thesis by simp
          qed
        qed
      next
        fix n
        assume n: "c0 < n" "n \<le> counter + 1"
        show "\<exists>p < length (cs[i := c']). cs[i := c'] ! p = Finished (Inr (correlative_string n))"
        proof (cases "n = counter + 1")
          case True
          with c' \<open>i < length cs\<close> show ?thesis
            by (intro exI [of _ i]) simp
        next
          case False
          with n have "n \<le> counter" by simp
          from old(4) [OF n(1) this] obtain p where p: "p < length cs"
              "cs ! p = Finished (Inr (correlative_string n))"
            by blast
          with ci have "p \<noteq> i" by auto
          with p show ?thesis
            by (intro exI [of _ p]) simp
        qed
      qed
      with new show ?thesis
        unfolding res by simp
    qed
  qed
qed

lemma issued_ok_run: "issued_ok c0 s \<Longrightarrow> issued_ok c0 (run_schedule sched s)"
  unfolding run_schedule_def
  by (induction sched arbitrary: s) (simp_all add: issued_ok_step)

lemma issued_ok_initial: "issued_ok counter (counter, replicate n (Idle retries))"
  by (simp add: issued_ok_def)

lemma run_schedule_length: "length (snd (run_schedule sched s)) = length (snd s)"
  unfolding run_schedule_def
proof (induction sched arbitrary: s)
  case Nil
  show ?case by simp
next
  case (Cons a sched)
  have "length (snd (sequencer_step s a)) = length (snd s)"
    by (cases s; cases a) (simp split: prod.splits)
  with Cons show ?case by simp
qed

lemma two_callers:
  assumes ok: "issued_ok c0 (counter, [Finished (Inr a), Finished (Inr b)])"
  shows "(a = correlative_string (c0 + 1) \<and> b = correlative_string (c0 + 2))
       \<or> (a = correlative_string (c0 + 2) \<and> b = correlative_string (c0 + 1))"
proof -
  let ?cs = "[Finished (Inr a), Finished (Inr b)]"
  note facts = issued_okD [OF ok]
  from facts(3) [of 0 1 a] have ab: "a \<noteq> b"
    by simp
  from facts(2) [of 0 a] obtain n1 where n1: "c0 < n1" "n1 \<le> counter" "a = correlative_string n1"
    by auto
  from facts(2) [of 1 b] obtain n2 where n2: "c0 < n2" "n2 \<le> counter" "b = correlative_string n2"
    by auto
  have only: "n = n1 \<or> n = n2" if "c0 < n" "n \<le> counter" for n
  proof -
    from facts(4) [OF that] obtain p where p: "p < length ?cs"
        "?cs ! p = Finished (Inr (correlative_string n))"
      by blast
    from p(1) have "p = 0 \<or> p = 1"
      by auto
    with p(2) have "correlative_string n = a \<or> correlative_string n = b"
      by auto
    with n1 n2 show ?thesis
      using correlative_string_inj by blast
  qed
  from ab n1 n2 have ne: "n1 \<noteq> n2" by auto
  have "counter \<le> c0 + 2"
  proof (rule ccontr)
    assume "\<not> counter \<le> c0 + 2"
    then have "c0 + 3 \<le> counter" by simp
    with only [of "c0 + 1"] only [of "c0 + 2"] only [of "c0 + 3"] show False
      by auto
  qed
  with n1 n2 ne have "(n1 = c0 + 1 \<and> n2 = c0 + 2) \<or> (n1 = c0 + 2 \<and> n2 = c0 + 1)"
    by auto
  with n1 n2 show ?thesis by auto
qed

text \<open>A caller that runs alone does what \<open>allocate\<close> does.\<close>

lemma allocate_alone:
  "run_schedule [(0, True), (0, True)] (counter, [Idle k])
     = (snd (allocate True counter), [Finished (fst (allocate True counter))])"
  "run_schedule [(0, False)] (counter, [Idle k])
     = (snd (allocate False counter), [Finished (fst (allocate False counter))])"
  by (simp_all add: run_schedule_def allocate_def)

text \<open>Two races of two callers with the counter at 10, one for each winner.\<close>

lemma race_first_wins:
  "run_schedule [(0, True), (1, True), (0, True), (1, True), (1, True), (1, True)]
       (10, replicate 2 (Idle 3))
     = (12, [Finished (Inr ''R-00011''), Finished (Inr ''R-00012'')])"
  by code_simp

lemma race_second_wins:
  "run_schedule [(0, True), (1, True), (1, True), (0, True), (0, True), (0, True)]
       (10, replicate 2 (Idle 3))
     = (12, [Finished (Inr ''R-00012''), Finished (Inr ''R-00011'')])"
  by code_simp

section \<open>Properties of the submit handler\<close>

text \<open>
  C10. When the cached client, its id or the cached receipt number is missing, \<open>onSubmit\<close>
  reports incomplete data and returns at once: the state is unchanged and no collaborator
  is called, so nothing is rendered, stored or inserted. The submit button is disabled
  while a submission is running or while the client or the receipt number is absent.
\<close>

theorem onSubmit_guard:
  "(clientData st = None \<or> (\<exists>c. clientData st = Some c \<and> \<not> truthy (id_c c)) \<or> correlative st = []
      \<longrightarrow> onSubmit e st values = (st, [Toasted DatosIncompletos])
          \<and> calls (snd (onSubmit e st values)) = [])
   \<and> (isSubmitting st \<or> clientData st = None \<or> correlative st = [] \<longrightarrow> submit_disabled st)"
  by (auto simp: onSubmit_def submit_disabled_def split: option.splits)

theorem onSubmit_guard_witness:
  "correlative (page_42\<lparr>correlative := []\<rparr>) = []
   \<and> onSubmit env_ok (page_42\<lparr>correlative := []\<rparr>) values_1
       = (page_42\<lparr>correlative := []\<rparr>, [Toasted DatosIncompletos])
   \<and> calls (snd (onSubmit env_ok (page_42\<lparr>correlative := []\<rparr>) values_1)) = []
   \<and> submit_disabled (page_42\<lparr>correlative := []\<rparr>)"
  using onSubmit_guard [of "page_42\<lparr>correlative := []\<rparr>" env_ok values_1]
  by simp

text \<open>
  C8. When a step of the submission after the guard throws (loading the generator,
  generating the PDF, storing it or inserting the income row), the form values, the
  cached client and the cached receipt number are the ones from before the submission,
  and the next receipt number is not fetched. Conversely, when the form, the client or
  the receipt number changed, or the next number was fetched, the run showed the success
  toast and none of those steps threw.
\<close>

theorem onSubmit_error_keeps_state:
  assumes "onSubmit e st values = (st', tr)"
  shows "(Called c (Threw m) \<in> set tr \<and> c \<noteq> FetchNextReceiptCorrelative \<longrightarrow>
           form st' = form st \<and> clientData st' = clientData st \<and> correlative st' = correlative st
           \<and> (\<forall>s. Called FetchNextReceiptCorrelative s \<notin> set tr))
       \<and> (form st' \<noteq> form st \<or> clientData st' \<noteq> clientData st \<or> correlative st' \<noteq> correlative st
            \<or> Called FetchNextReceiptCorrelative s \<in> set tr \<longrightarrow>
           (\<exists>b. Toasted (ReciboGeneradoYRegistrado (correlative st) b) \<in> set tr)
           \<and> (\<forall>c' m'. Called c' (Threw m') \<in> set tr \<longrightarrow> c' = FetchNextReceiptCorrelative))"
  using assms
  by (auto simp: run_defs status_of_Threw split: option.splits if_splits outcome.splits)

theorem onSubmit_error_keeps_state_witness:
  "Called (CreateIncomeFromBoleta income_42) (Threw ''timeout'')
     \<in> set (snd (onSubmit env_ledger_fails page_42 values_1))
   \<and> form (fst (onSubmit env_ledger_fails page_42 values_1)) = form page_42
   \<and> clientData (fst (onSubmit env_ledger_fails page_42 values_1)) = clientData page_42
   \<and> correlative (fst (onSubmit env_ledger_fails page_42 values_1)) = correlative page_42
   \<and> (\<forall>s. Called FetchNextReceiptCorrelative s
            \<notin> set (snd (onSubmit env_ledger_fails page_42 values_1)))
   \<and> Called FetchNextReceiptCorrelative Returned \<in> set (snd (onSubmit env_ok page_42 values_1))
   \<and> (\<exists>b. Toasted (ReciboGeneradoYRegistrado (correlative page_42) b)
            \<in> set (snd (onSubmit env_ok page_42 values_1)))"
proof -
  have "Called (CreateIncomeFromBoleta income_42) (Threw ''timeout'')
          \<in> set (snd (onSubmit env_ledger_fails page_42 values_1))"
    by (simp add: run_ledger_fails)
  moreover have "form (fst (onSubmit env_ledger_fails page_42 values_1)) = form page_42
      \<and> clientData (fst (onSubmit env_ledger_fails page_42 values_1)) = clientData page_42
      \<and> correlative (fst (onSubmit env_ledger_fails page_42 values_1)) = correlative page_42
      \<and> (\<forall>s. Called FetchNextReceiptCorrelative s
            \<notin> set (snd (onSubmit env_ledger_fails page_42 values_1)))"
    using onSubmit_error_keeps_state [OF run_ledger_fails,
        of "CreateIncomeFromBoleta income_42" "''timeout''"]
    by (simp add: run_ledger_fails)
  moreover have "Called FetchNextReceiptCorrelative Returned
      \<in> set (snd (onSubmit env_ok page_42 values_1))"
    by (simp add: run_ok)
  moreover have "\<exists>b. Toasted (ReciboGeneradoYRegistrado (correlative page_42) b)
            \<in> set (snd (onSubmit env_ok page_42 values_1))"
    using onSubmit_error_keeps_state [OF run_ok, of _ _ Returned]
    by (simp add: run_ok)
  ultimately show ?thesis by blast
qed

text \<open>
  C3. In every run of \<open>onSubmit\<close>, a call that inserts the income row comes after a call
  that stored the PDF under the same receipt number and returned; and when the call
  that stores the PDF throws, the run makes no call that inserts the income row.
\<close>

theorem ledger_after_artifact:
  "(snd (onSubmit e st values) = pre @ Called (CreateIncomeFromBoleta d) r # post \<longrightarrow>
      (\<exists>b i. Called (SaveReceiptPdfToSupabase b (receipt_number d) i) Returned \<in> set pre))
   \<and> (Called (SaveReceiptPdfToSupabase b c i) (Threw m) \<in> set (snd (onSubmit e st values)) \<longrightarrow>
      (\<forall>d' r'. Called (CreateIncomeFromBoleta d') r' \<notin> set (snd (onSubmit e st values))))"
  by (auto simp: run_defs status_of_Threw Cons_eq_append_conv
           split: option.splits if_splits outcome.splits)

theorem ledger_after_artifact_witness:
  "snd (onSubmit env_ok page_42 values_1) =
     [Called ImportReceiptPdfGenerator Returned, Called (GenerateReceiptPdf rd_42) Returned,
      Called (SaveReceiptPdfToSupabase ''%PDF'' ''R-00042'' (IdNum 7)) Returned]
     @ Called (CreateIncomeFromBoleta income_42) Returned
     # [Toasted (ReciboGeneradoYRegistrado ''R-00042'' ''%PDF''),
        Called FetchNextReceiptCorrelative Returned]
   \<and> (\<exists>b i. Called (SaveReceiptPdfToSupabase b (receipt_number income_42) i) Returned
        \<in> set [Called ImportReceiptPdfGenerator Returned,
                Called (GenerateReceiptPdf rd_42) Returned,
                Called (SaveReceiptPdfToSupabase ''%PDF'' ''R-00042'' (IdNum 7)) Returned])
   \<and> Called (SaveReceiptPdfToSupabase ''%PDF'' ''R-00042'' (IdNum 7)) (Threw ''timeout'')
        \<in> set (snd (onSubmit env_store_fails page_42 values_1))
   \<and> (\<forall>d' r'. Called (CreateIncomeFromBoleta d') r'
        \<notin> set (snd (onSubmit env_store_fails page_42 values_1)))"
proof -
  have run: "snd (onSubmit env_ok page_42 values_1) =
     [Called ImportReceiptPdfGenerator Returned, Called (GenerateReceiptPdf rd_42) Returned,
      Called (SaveReceiptPdfToSupabase ''%PDF'' ''R-00042'' (IdNum 7)) Returned]
     @ Called (CreateIncomeFromBoleta income_42) Returned
     # [Toasted (ReciboGeneradoYRegistrado ''R-00042'' ''%PDF''),
        Called FetchNextReceiptCorrelative Returned]"
    by (simp add: run_ok)
  have thrown: "Called (SaveReceiptPdfToSupabase ''%PDF'' ''R-00042'' (IdNum 7)) (Threw ''timeout'')
        \<in> set (snd (onSubmit env_store_fails page_42 values_1))"
    by (simp add: run_store_fails)
  from run thrown
    ledger_after_artifact [of env_ok page_42 values_1
      "[Called ImportReceiptPdfGenerator Returned,
        Called (GenerateReceiptPdf rd_42) Returned,
        Called (SaveReceiptPdfToSupabase ''%PDF'' ''R-00042'' (IdNum 7)) Returned]"
      income_42 Returned
      "[Toasted (ReciboGeneradoYRegistrado ''R-00042'' ''%PDF''),
        Called FetchNextReceiptCorrelative Returned]"]
    ledger_after_artifact [of env_store_fails page_42 values_1 _ _ _ _
      "''%PDF''" "''R-00042''" "IdNum 7" "''timeout''"]
  show ?thesis by blast
qed



text \<open>
  C1 (as stated, refuted). The claim asks that the receipt number of a run be obtained
  from the sequencer during the run, right before rendering. Take the page that fetched
  \<open>R-00042\<close> when it mounted and then loaded a client. Its submission renders, stores
  and records under \<open>R-00042\<close>, the number fetched at page load; no call to the
  sequencer comes before the call to the PDF generator, and the only one is the last call
  of the run.
\<close>

theorem cached_correlative_counterexample:
  "page_42 = (fst (mount env_load_42))\<lparr>clientData := Some client_1, form := values_1\<rparr>
   \<and> \<not> fetched_before_render None (snd (onSubmit env_ok page_42 values_1))
   \<and> calls (snd (onSubmit env_ok page_42 values_1)) =
       [ImportReceiptPdfGenerator, GenerateReceiptPdf rd_42,
        SaveReceiptPdfToSupabase ''%PDF'' ''R-00042'' (IdNum 7),
        CreateIncomeFromBoleta income_42, FetchNextReceiptCorrelative]
   \<and> used_correlatives (snd (onSubmit env_ok page_42 values_1))
       = [''R-00042'', ''R-00042'', ''R-00042'']"
  by (simp add: run_ok mount_42 used_correlatives_def)
     (simp add: page_42_def initial_page_def rd_42_def income_42_def make_receiptData_def
        make_incomeData_def)

text \<open>
  C1 (amended). In every run of \<open>onSubmit\<close>, the receipt number handed to the PDF
  generator, to the storage and to the income row is the one cached in the page state
  when the handler starts; the run calls \<open>fetchNextReceiptCorrelative\<close> only after the
  income row was inserted. The number cached when the page mounts is the one that
  \<open>fetchNextReceiptCorrelative\<close> returned then (the empty string when it threw).
\<close>

theorem onSubmit_uses_cached_correlative:
  "(\<forall>k \<in> set (used_correlatives (snd (onSubmit e st values))). k = correlative st)
   \<and> (snd (onSubmit e st values) = pre @ Called FetchNextReceiptCorrelative s # post \<longrightarrow>
        (\<exists>d. Called (CreateIncomeFromBoleta d) Returned \<in> set pre))
   \<and> correlative (fst (mount e)) =
        (case fetchNextReceiptCorrelative e of Returns n \<Rightarrow> n | Throws m \<Rightarrow> [])"
proof (intro conjI ballI impI)
  fix k
  assume "k \<in> set (used_correlatives (snd (onSubmit e st values)))"
  then show "k = correlative st"
    by (rule used_correlatives_cached)
next
  assume "snd (onSubmit e st values) = pre @ Called FetchNextReceiptCorrelative s # post"
  then show "\<exists>d. Called (CreateIncomeFromBoleta d) Returned \<in> set pre"
    by (auto simp: run_defs status_of_Threw Cons_eq_append_conv
             split: option.splits if_splits outcome.splits)
next
  show "correlative (fst (mount e)) =
        (case fetchNextReceiptCorrelative e of Returns n \<Rightarrow> n | Throws m \<Rightarrow> [])"
    by (simp add: mount_def loadCorrelative_def initial_page_def split: outcome.splits)
qed

theorem onSubmit_uses_cached_correlative_witness:
  "used_correlatives (snd (onSubmit env_ok page_42 values_1)) = [''R-00042'', ''R-00042'', ''R-00042'']
   \<and> correlative page_42 = ''R-00042''
   \<and> snd (onSubmit env_ok page_42 values_1) =
       [Called ImportReceiptPdfGenerator Returned, Called (GenerateReceiptPdf rd_42) Returned,
        Called (SaveReceiptPdfToSupabase ''%PDF'' ''R-00042'' (IdNum 7)) Returned,
        Called (CreateIncomeFromBoleta income_42) Returned,
        Toasted (ReciboGeneradoYRegistrado ''R-00042'' ''%PDF'')]
       @ Called FetchNextReceiptCorrelative Returned # []
   \<and> (\<exists>d. Called (CreateIncomeFromBoleta d) Returned
         \<in> set [Called ImportReceiptPdfGenerator Returned,
                 Called (GenerateReceiptPdf rd_42) Returned,
                 Called (SaveReceiptPdfToSupabase ''%PDF'' ''R-00042'' (IdNum 7)) Returned,
                 Called (CreateIncomeFromBoleta income_42) Returned,
                 Toasted (ReciboGeneradoYRegistrado ''R-00042'' ''%PDF'')])
   \<and> correlative (fst (mount env_load_42)) = ''R-00042''"
proof -
  have used: "used_correlatives (snd (onSubmit env_ok page_42 values_1))
      = [''R-00042'', ''R-00042'', ''R-00042'']"
    by (simp add: run_ok used_correlatives_def)
       (simp add: rd_42_def income_42_def make_receiptData_def make_incomeData_def)
  have run: "snd (onSubmit env_ok page_42 values_1) =
       [Called ImportReceiptPdfGenerator Returned, Called (GenerateReceiptPdf rd_42) Returned,
        Called (SaveReceiptPdfToSupabase ''%PDF'' ''R-00042'' (IdNum 7)) Returned,
        Called (CreateIncomeFromBoleta income_42) Returned,
        Toasted (ReciboGeneradoYRegistrado ''R-00042'' ''%PDF'')]
       @ Called FetchNextReceiptCorrelative Returned # []"
    by (simp add: run_ok)
  have fetch: "fetchNextReceiptCorrelative env_load_42 = Returns ''R-00042''"
    by (simp add: sample_defs env_load_42_def)
  have cached: "correlative page_42 = ''R-00042''"
    by (simp add: page_42_def)
  note inst = onSubmit_uses_cached_correlative [of env_ok page_42 values_1
      "[Called ImportReceiptPdfGenerator Returned, Called (GenerateReceiptPdf rd_42) Returned,
        Called (SaveReceiptPdfToSupabase ''%PDF'' ''R-00042'' (IdNum 7)) Returned,
        Called (CreateIncomeFromBoleta income_42) Returned,
        Toasted (ReciboGeneradoYRegistrado ''R-00042'' ''%PDF'')]" Returned "[]"]
  from inst run have "\<exists>d. Called (CreateIncomeFromBoleta d) Returned
         \<in> set [Called ImportReceiptPdfGenerator Returned,
                 Called (GenerateReceiptPdf rd_42) Returned,
                 Called (SaveReceiptPdfToSupabase ''%PDF'' ''R-00042'' (IdNum 7)) Returned,
                 Called (CreateIncomeFromBoleta income_42) Returned,
                 Toasted (ReciboGeneradoYRegistrado ''R-00042'' ''%PDF'')]"
    by blast
  moreover from fetch onSubmit_uses_cached_correlative [of env_load_42]
  have "correlative (fst (mount env_load_42)) = ''R-00042''"
    by simp
  ultimately show ?thesis
    using used run cached by blast
qed

text \<open>
  C2 (as stated, refuted). The claim asks that a receipt number used by a failed run be
  never used again. On the page showing \<open>R-00042\<close>, a submission whose PDF generation
  throws has handed \<open>R-00042\<close> to the generator; the next submission from the state it
  leaves renders, stores and records under \<open>R-00042\<close> again, not under a later number.
\<close>

theorem spent_correlative_counterexample:
  "Called (GenerateReceiptPdf rd_42) (Threw ''timeout'')
      \<in> set (snd (onSubmit env_render_fails page_42 values_1))
   \<and> used_correlatives (snd (onSubmit env_render_fails page_42 values_1)) = [''R-00042'']
   \<and> used_correlatives
        (snd (onSubmit env_ok (fst (onSubmit env_render_fails page_42 values_1)) values_1))
       = [''R-00042'', ''R-00042'', ''R-00042'']
   \<and> Called (CreateIncomeFromBoleta income_42) Returned
      \<in> set (snd (onSubmit env_ok (fst (onSubmit env_render_fails page_42 values_1)) values_1))"
  by (simp add: run_render_fails run_ok used_correlatives_def used_42)

text \<open>
  C2 (amended). A run of \<open>onSubmit\<close> in which a step throws leaves the cached receipt
  number and the cached client as they were, so every receipt number that the next
  submission from that state hands to a collaborator is that same number. The cached
  number changes only in a run that inserted the income row, and then to the value
  that \<open>fetchNextReceiptCorrelative\<close> returned.
\<close>

theorem failed_run_keeps_correlative:
  assumes "onSubmit e st values = (st', tr)"
  shows "(Called c (Threw m) \<in> set tr \<and> c \<noteq> FetchNextReceiptCorrelative \<longrightarrow>
            correlative st' = correlative st \<and> clientData st' = clientData st
            \<and> (\<forall>k \<in> set (used_correlatives (snd (onSubmit e' st' values'))). k = correlative st))
       \<and> (correlative st' \<noteq> correlative st \<longrightarrow>
            fetchNextReceiptCorrelative e = Returns (correlative st')
            \<and> (\<exists>d. Called (CreateIncomeFromBoleta d) Returned \<in> set tr))"
proof (intro conjI impI)
  assume thrown: "Called c (Threw m) \<in> set tr \<and> c \<noteq> FetchNextReceiptCorrelative"
  with assms show same: "correlative st' = correlative st"
    by (auto simp: run_defs status_of_Threw split: option.splits if_splits outcome.splits)
  from thrown assms show "clientData st' = clientData st"
    by (auto simp: run_defs status_of_Threw split: option.splits if_splits outcome.splits)
  show "\<forall>k \<in> set (used_correlatives (snd (onSubmit e' st' values'))). k = correlative st"
    using used_correlatives_cached [of _ e' st' values'] same by auto
next
  assume changed: "correlative st' \<noteq> correlative st"
  with assms show "fetchNextReceiptCorrelative e = Returns (correlative st')"
    by (auto simp: run_defs split: option.splits if_splits outcome.splits)
  from changed assms show "\<exists>d. Called (CreateIncomeFromBoleta d) Returned \<in> set tr"
    by (auto simp: run_defs status_of_Threw split: option.splits if_splits outcome.splits)
qed

theorem failed_run_keeps_correlative_witness:
  "Called (GenerateReceiptPdf rd_42) (Threw ''timeout'')
      \<in> set (snd (onSubmit env_render_fails page_42 values_1))
   \<and> correlative (fst (onSubmit env_render_fails page_42 values_1)) = ''R-00042''
   \<and> used_correlatives
        (snd (onSubmit env_ok (fst (onSubmit env_render_fails page_42 values_1)) values_1))
       = [''R-00042'', ''R-00042'', ''R-00042'']
   \<and> correlative (fst (onSubmit env_ok page_42 values_1)) = ''R-00043''
   \<and> fetchNextReceiptCorrelative env_ok = Returns ''R-00043''
   \<and> Called (CreateIncomeFromBoleta income_42) Returned \<in> set (snd (onSubmit env_ok page_42 values_1))"
proof -
  have thrown: "Called (GenerateReceiptPdf rd_42) (Threw ''timeout'')
      \<in> set (snd (onSubmit env_render_fails page_42 values_1))"
    by (simp add: run_render_fails)
  have again: "used_correlatives
        (snd (onSubmit env_ok (fst (onSubmit env_render_fails page_42 values_1)) values_1))
       = [''R-00042'', ''R-00042'', ''R-00042'']"
    by (simp add: run_render_fails run_ok used_correlatives_def used_42)
  have changed: "correlative (fst (onSubmit env_ok page_42 values_1)) = ''R-00043''"
      "correlative page_42 = ''R-00042''"
    by (simp_all add: run_ok) (simp add: page_42_def)
  from thrown
    failed_run_keeps_correlative [OF run_render_fails,
      of "GenerateReceiptPdf rd_42" "''timeout''" env_ok values_1]
  have "correlative (fst (onSubmit env_render_fails page_42 values_1)) = correlative page_42"
    by (simp add: run_render_fails)
  then have "correlative (fst (onSubmit env_render_fails page_42 values_1)) = ''R-00042''"
    using changed(2) by simp
  moreover from changed failed_run_keeps_correlative [OF run_ok]
  have "fetchNextReceiptCorrelative env_ok = Returns ''R-00043''
        \<and> Called (CreateIncomeFromBoleta income_42) Returned
            \<in> set (snd (onSubmit env_ok page_42 values_1))"
    by (simp add: run_ok)
  ultimately show ?thesis
    using thrown again changed by simp
qed




section \<open>Properties of form validation\<close>

text \<open>
  C5. A submission whose form values break a rule of the schema (amount not positive,
  empty concept, or operation reference present without being required or required
  without being present) is rejected before \<open>onSubmit\<close> runs: the state, and with it the
  cached receipt number, is unchanged and no collaborator is called, so nothing is
  fetched, rendered, stored or inserted. In particular this holds for \<open>BBVA Empresa\<close>
  with an empty operation number.
\<close>

theorem invalid_request_rejected:
  "(monto (form st) \<le> 0 \<or> concepto (form st) = []
      \<or> (numero_operacion (form st) = []) = (metodo_pago (form st) = ''BBVA Empresa'')
     \<longrightarrow> handleSubmit e st = (st, []) \<and> calls (snd (handleSubmit e st)) = []
         \<and> correlative (fst (handleSubmit e st)) = correlative st)
   \<and> (metodo_pago (form st) = ''BBVA Empresa'' \<and> numero_operacion (form st) = []
     \<longrightarrow> handleSubmit e st = (st, []))"
  by (auto simp: handleSubmit_def ReciboPagoFormSchema_def)

theorem invalid_request_rejected_witness:
  "metodo_pago (form page_bbva) = ''BBVA Empresa'' \<and> numero_operacion (form page_bbva) = []
   \<and> handleSubmit env_ok page_bbva = (page_bbva, [])
   \<and> calls (snd (handleSubmit env_ok page_bbva)) = []
   \<and> correlative (fst (handleSubmit env_ok page_bbva)) = ''R-00042''"
proof -
  have bbva: "metodo_pago (form page_bbva) = ''BBVA Empresa''"
      "numero_operacion (form page_bbva) = []"
    by (simp_all add: sample_defs page_bbva_def values_bbva_def defaultValues_def)
  with invalid_request_rejected [of page_bbva env_ok]
  have "handleSubmit env_ok page_bbva = (page_bbva, [])"
    by simp
  then show ?thesis
    using bbva by (simp add: page_bbva_def page_42_def)
qed

section \<open>Properties of the sequencer\<close>

text \<open>
  C6. \<open>peek\<close> leaves the counter as it is: after any number of calls of \<open>peek\<close> the
  counter is unchanged, and after at least one call, an \<open>allocate\<close> that reaches the
  store returns the value that the last \<open>peek\<close> reported.
\<close>

theorem peek_then_allocate:
  "snd (peeks n counter) = counter
   \<and> (0 < n \<longrightarrow>
        allocate True (snd (peeks n counter)) = (Inr (last (fst (peeks n counter))), counter + 1))"
  by (simp add: peeks_eq allocate_def)

theorem peek_then_allocate_witness:
  "(0::nat) < 3 \<and> peeks 3 41 = ([''R-00042'', ''R-00042'', ''R-00042''], 41)
   \<and> allocate True (snd (peeks 3 41)) = (Inr ''R-00042'', 42)"
proof -
  have p: "peeks 3 41 = ([''R-00042'', ''R-00042'', ''R-00042''], 41)"
    by (simp add: peeks_eq correlative_string_samples numeral_3_eq_3)
  from peek_then_allocate [of 3 41] show ?thesis
    by (simp add: p)
qed

text \<open>
  C7. N callers run \<open>allocate\<close> concurrently from a counter, their reads and
  compare-and-swaps interleaved in any order. Whatever the order, two different callers
  that both received a correlative received different ones. With the counter at 10, two
  callers that both received a correlative received \<open>R-00011\<close> and \<open>R-00012\<close>, in one
  order or the other.
\<close>

theorem concurrent_allocations_distinct:
  "(i < n \<and> j < n \<and> i \<noteq> j
    \<and> snd (run_schedule sched (counter, replicate n (Idle retries))) ! i = Finished (Inr a)
    \<and> snd (run_schedule sched (counter, replicate n (Idle retries))) ! j = Finished (Inr b)
    \<longrightarrow> a \<noteq> b)
   \<and> (snd (run_schedule sched (10, replicate 2 (Idle retries)))
         = [Finished (Inr a), Finished (Inr b)]
    \<longrightarrow> (a = ''R-00011'' \<and> b = ''R-00012'') \<or> (a = ''R-00012'' \<and> b = ''R-00011''))"
proof (intro conjI impI)
  let ?s = "run_schedule sched (counter, replicate n (Idle retries))"
  assume h: "i < n \<and> j < n \<and> i \<noteq> j \<and> snd ?s ! i = Finished (Inr a) \<and> snd ?s ! j = Finished (Inr b)"
  have len: "length (snd ?s) = n"
    by (simp add: run_schedule_length)
  have "issued_ok counter (fst ?s, snd ?s)"
    by (simp add: issued_ok_run issued_ok_initial)
  from issued_okD(3) [OF this, of i j a] h len show "a \<noteq> b"
    by auto
next
  let ?s = "run_schedule sched (10, replicate 2 (Idle retries))"
  assume h: "snd ?s = [Finished (Inr a), Finished (Inr b)]"
  have "issued_ok 10 ?s"
    by (intro issued_ok_run issued_ok_initial)
  with h have "issued_ok 10 (fst ?s, [Finished (Inr a), Finished (Inr b)])"
    by (metis prod.collapse)
  from two_callers [OF this] show "(a = ''R-00011'' \<and> b = ''R-00012'') \<or> (a = ''R-00012'' \<and> b = ''R-00011'')"
    by (simp add: correlative_string_samples)
qed

theorem concurrent_allocations_distinct_witness:
  "snd (run_schedule [(0, True), (1, True), (0, True), (1, True), (1, True), (1, True)]
         (10, replicate 2 (Idle 3)))
     = [Finished (Inr ''R-00011''), Finished (Inr ''R-00012'')]
   \<and> ''R-00011'' \<noteq> ''R-00012''
   \<and> snd (run_schedule [(0, True), (1, True), (1, True), (0, True), (0, True), (0, True)]
         (10, replicate 2 (Idle 3)))
     = [Finished (Inr ''R-00012''), Finished (Inr ''R-00011'')]"
proof -
  have first: "snd (run_schedule [(0, True), (1, True), (0, True), (1, True), (1, True), (1, True)]
         (10, replicate 2 (Idle 3)))
     = [Finished (Inr ''R-00011''), Finished (Inr ''R-00012'')]"
    by (simp only: race_first_wins snd_conv)
  have second: "snd (run_schedule [(0, True), (1, True), (1, True), (0, True), (0, True), (0, True)]
         (10, replicate 2 (Idle 3)))
     = [Finished (Inr ''R-00012''), Finished (Inr ''R-00011'')]"
    by (simp only: race_second_wins snd_conv)
  from first have "(0::nat) < 2 \<and> (1::nat) < 2 \<and> (0::nat) \<noteq> 1
    \<and> snd (run_schedule [(0, True), (1, True), (0, True), (1, True), (1, True), (1, True)]
         (10, replicate 2 (Idle 3))) ! 0 = Finished (Inr ''R-00011'')
    \<and> snd (run_schedule [(0, True), (1, True), (0, True), (1, True), (1, True), (1, True)]
         (10, replicate 2 (Idle 3))) ! 1 = Finished (Inr ''R-00012'')"
    by simp
  with concurrent_allocations_distinct [of 0 2 1
      "[(0, True), (1, True), (0, True), (1, True), (1, True), (1, True)]" 10 3
      "''R-00011''" "''R-00012''"]
  have "''R-00011'' \<noteq> ''R-00012''"
    by blast
  with first second show ?thesis
    by blast
qed

end
